theory Spec2Isabelle
  imports Complex_Main "HOL-Library.AList"
begin

section \<open>Python values, classes and exceptions\<close>

text \<open>
  The values that reach the configuration library: what \<^verbatim>\<open>json.load\<close> produces
  (\<^verbatim>\<open>None\<close>, booleans, integers, floats, strings, lists, dicts) and instances of the two
  sentinel classes \<^verbatim>\<open>NoDefault\<close> and \<^verbatim>\<open>UseSubDefaults\<close>, which the constructors take as
  defaults. A dict is an association list in insertion order; floats are carried as the
  number they denote.
\<close>

datatype pyval =
    PNone
  | PBool bool
  | PInt int
  | PFloat real
  | PStr string
  | PList "pyval list"
  | PDict "(string \<times> pyval) list"
  | PNoDefault
  | PUseSubDefaults

type_synonym pydict = "(string \<times> pyval) list"

text \<open>The classes an item can accept, and that \<^verbatim>\<open>type(v)\<close> can return.\<close>

datatype pytype =
    TNoneType | TBool | TInt | TFloat | TStr | TList | TDict | TNoDefault | TUseSubDefaults

fun type_of :: "pyval \<Rightarrow> pytype" where
  "type_of PNone = TNoneType"
| "type_of (PBool b) = TBool"
| "type_of (PInt i) = TInt"
| "type_of (PFloat r) = TFloat"
| "type_of (PStr s) = TStr"
| "type_of (PList xs) = TList"
| "type_of (PDict d) = TDict"
| "type_of PNoDefault = TNoDefault"
| "type_of PUseSubDefaults = TUseSubDefaults"

text \<open>\<^verbatim>\<open>isinstance(v, t)\<close>: the class of \<open>v\<close> is \<open>t\<close> or a subclass of it; \<^verbatim>\<open>bool\<close> is a
  subclass of \<^verbatim>\<open>int\<close>.\<close>

definition isinstance :: "pyval \<Rightarrow> pytype \<Rightarrow> bool" where
  "isinstance v t = (type_of v = t \<or> (type_of v = TBool \<and> t = TInt))"

text \<open>\<^verbatim>\<open>str(t)\<close> for a class, and \<^verbatim>\<open>str(ts)\<close> for a list of classes. The two sentinel
  classes print with the name of their module, taken to be the file's, \<^verbatim>\<open>ConfigParser\<close>.\<close>

fun type_name :: "pytype \<Rightarrow> string" where
  "type_name TNoneType = ''NoneType''"
| "type_name TBool = ''bool''"
| "type_name TInt = ''int''"
| "type_name TFloat = ''float''"
| "type_name TStr = ''str''"
| "type_name TList = ''list''"
| "type_name TDict = ''dict''"
| "type_name TNoDefault = ''ConfigParser.NoDefault''"
| "type_name TUseSubDefaults = ''ConfigParser.UseSubDefaults''"

definition str_type :: "pytype \<Rightarrow> string" where
  "str_type t = ''<class '' @ [CHR 0x27] @ type_name t @ [CHR 0x27] @ ''>''"

fun join :: "string \<Rightarrow> string list \<Rightarrow> string" where
  "join sep [] = []"
| "join sep [s] = s"
| "join sep (s # t # ss) = s @ sep @ join sep (t # ss)"

definition str_type_list :: "pytype list \<Rightarrow> string" where
  "str_type_list ts = ''['' @ join '', '' (map str_type ts) @ '']''"

text \<open>The three exception classes of \<^verbatim>\<open>ConfigParser.py\<close>, each with its message, and
  the two exceptions of the Python library that \<^verbatim>\<open>parseConfigFile\<close> lets through: \<^verbatim>\<open>open\<close> on
  a path that does not exist, \<^verbatim>\<open>json.load\<close> on text that is not JSON.\<close>

datatype error =
    ExpectedValueError string
  | InvalidTypeError string
  | ValidationFailedError string
  | FileNotFoundError string
  | JSONDecodeError

definition dq :: string where
  "dq = [CHR 0x22]"

definition ExpectedValueError_init :: "string \<Rightarrow> error" where
  "ExpectedValueError_init key =
     ExpectedValueError (''Expected a value for '' @ dq @ key @ dq @ '', but no value was given.'')"

definition InvalidTypeError_init :: "string \<Rightarrow> string \<Rightarrow> string \<Rightarrow> bool \<Rightarrow> error" where
  "InvalidTypeError_init key expectedType recievedType typeList =
     (if typeList then
        InvalidTypeError (''Invalid type for '' @ dq @ key @ dq @ ''. Expected one of '' @ dq
          @ expectedType @ dq @ '', but got '' @ dq @ recievedType @ dq @ ''.'')
      else
        InvalidTypeError (''Invalid type for '' @ dq @ key @ dq @ ''. Expected '' @ dq
          @ expectedType @ dq @ '', but got '' @ dq @ recievedType @ dq @ ''.''))"

section \<open>Config items and configs\<close>

text \<open>
  \<^verbatim>\<open>TypedConfigItem(key, t, default)\<close> is \<^verbatim>\<open>MultiTypeConfigItem(key, [t], default)\<close>: its
  constructor only calls the parent's with a one-element list. The validator of a
  \<^verbatim>\<open>Config\<close> is \<^verbatim>\<open>None\<close> or a function of the parsed dict that returns a value or raises.
\<close>

datatype configItem =
    MultiTypeConfigItem string "pytype list" pyval
  | TypeOrSubconfigConfigItem string pytype config pyval
and config =
    Config "configItem list" "(pydict \<Rightarrow> error + pyval) option"


fun key :: "configItem \<Rightarrow> string" where
  "key (MultiTypeConfigItem k ts d) = k"
| "key (TypeOrSubconfigConfigItem k t sub d) = k"

fun configItems :: "config \<Rightarrow> configItem list" where
  "configItems (Config items v) = items"

fun validator :: "config \<Rightarrow> (pydict \<Rightarrow> error + pyval) option" where
  "validator (Config items v) = v"

text \<open>\<^verbatim>\<open>ConfigItem.getDefault\<close>, the base-class method.\<close>

definition ConfigItem_getDefault :: "string \<Rightarrow> pyval \<Rightarrow> error + pyval" where
  "ConfigItem_getDefault k d =
     (if d = PNoDefault then Inl (ExpectedValueError_init k) else Inr d)"

text \<open>\<^verbatim>\<open>d[k] = v\<close> on a dict keeps the position of a key already there:
  \<^const>\<open>AList.update\<close>. \<^verbatim>\<open>k in d\<close> and \<^verbatim>\<open>d[k]\<close> are \<^const>\<open>map_of\<close>.\<close>

text \<open>\<^verbatim>\<open>getDefault\<close> of an item and of a config; the loop of \<^verbatim>\<open>Config.getDefault\<close>
  carries the dict built so far.\<close>

fun item_getDefault :: "configItem \<Rightarrow> error + pyval"
and Config_getDefault :: "config \<Rightarrow> error + pydict"
and getDefault_loop :: "configItem list \<Rightarrow> pydict \<Rightarrow> error + pydict" where
  "item_getDefault (MultiTypeConfigItem k ts d) = ConfigItem_getDefault k d"
| "item_getDefault (TypeOrSubconfigConfigItem k t sub d) =
     (if d = PUseSubDefaults then
        (case Config_getDefault sub of Inl e \<Rightarrow> Inl e | Inr m \<Rightarrow> Inr (PDict m))
      else ConfigItem_getDefault k d)"
| "Config_getDefault (Config items v) = getDefault_loop items []"
| "getDefault_loop [] defaults = Inr defaults"
| "getDefault_loop (item # items) defaults =
     (case item_getDefault item of
        Inl e \<Rightarrow> Inl e
      | Inr x \<Rightarrow> getDefault_loop items (AList.update (key item) x defaults))"

text \<open>\<^verbatim>\<open>_parse\<close>, \<^verbatim>\<open>parse\<close> of an item and of a config. The input of \<^verbatim>\<open>parse\<close> is a dict: a
  nested input is one by the \<^verbatim>\<open>isinstance\<close> test before the call, and the top level of a
  config file is taken to be an object.\<close>

text \<open>\<^verbatim>\<open>isinstance(v, dict)\<close>, with the dict when it holds.\<close>

fun as_dict :: "pyval \<Rightarrow> pydict option" where
  "as_dict (PDict m) = Some m"
| "as_dict v = None"

fun MultiType_parse_loop :: "pytype list \<Rightarrow> pyval \<Rightarrow> pyval option" where
  "MultiType_parse_loop [] jsonValue = None"
| "MultiType_parse_loop (possibleType # rest) jsonValue =
     (if isinstance jsonValue possibleType then Some jsonValue
      else MultiType_parse_loop rest jsonValue)"

definition MultiType_parse :: "string \<Rightarrow> pytype list \<Rightarrow> pyval \<Rightarrow> error + pyval" where
  "MultiType_parse k possibleTypes jsonValue =
     (case MultiType_parse_loop possibleTypes jsonValue of
        Some r \<Rightarrow> Inr r
      | None \<Rightarrow> Inl (InvalidTypeError_init k (str_type_list possibleTypes)
                  (str_type (type_of jsonValue)) True))"

function (sequential) item_parse_value :: "configItem \<Rightarrow> pyval \<Rightarrow> error + pyval"
and item_parse :: "configItem \<Rightarrow> pydict \<Rightarrow> error + pyval"
and Config_parse :: "config \<Rightarrow> pydict \<Rightarrow> error + pydict"
and parse_loop :: "configItem list \<Rightarrow> pydict \<Rightarrow> pydict \<Rightarrow> error + pydict" where
  "item_parse_value (MultiTypeConfigItem k ts d) jsonValue = MultiType_parse k ts jsonValue"
| "item_parse_value (TypeOrSubconfigConfigItem k t sub d) jsonValue =
     (if isinstance jsonValue t then Inr jsonValue
      else (case as_dict jsonValue of
              Some m \<Rightarrow> (case Config_parse sub m of Inl e \<Rightarrow> Inl e | Inr r \<Rightarrow> Inr (PDict r))
            | None \<Rightarrow> Inl (InvalidTypeError_init k (str_type t) (str_type (type_of jsonValue)) False)))"
| "item_parse item jsonConfig =
     (case map_of jsonConfig (key item) of
        Some jsonValue \<Rightarrow> item_parse_value item jsonValue
      | None \<Rightarrow> item_getDefault item)"
| "Config_parse (Config items v) jsonConfig = parse_loop items jsonConfig []"
| "parse_loop [] jsonConfig vals = Inr vals"
| "parse_loop (item # items) jsonConfig vals =
     (case item_parse item jsonConfig of
        Inl e \<Rightarrow> Inl e
      | Inr x \<Rightarrow> parse_loop items jsonConfig (AList.update (key item) x vals))"
  by pat_completeness auto
termination
  by (relation "measures [
        (\<lambda>x. case x of
           Inl (Inl (item, v)) \<Rightarrow> size item
         | Inl (Inr (item, j)) \<Rightarrow> size item
         | Inr (Inl (cfg, j)) \<Rightarrow> size cfg
         | Inr (Inr (items, j, vals)) \<Rightarrow> size_list size items),
        (\<lambda>x. case x of Inl (Inr p) \<Rightarrow> 1 | _ \<Rightarrow> 0)]") auto


text \<open>\<^verbatim>\<open>Config.validate\<close> and \<^verbatim>\<open>parseConfig\<close>.\<close>

definition Config_validate :: "config \<Rightarrow> pydict \<Rightarrow> error + pyval" where
  "Config_validate cfg c = (case validator cfg of Some f \<Rightarrow> f c | None \<Rightarrow> Inr (PDict c))"

definition parseConfig :: "config \<Rightarrow> pydict \<Rightarrow> error + pyval" where
  "parseConfig configSpec jsonConfig =
     (case Config_parse configSpec jsonConfig of
        Inl e \<Rightarrow> Inl e
      | Inr c \<Rightarrow> Config_validate configSpec c)"

section \<open>Decoding JSON with the duplicate-key hook\<close>

text \<open>\<^verbatim>\<open>errorOnDuplicateKeys\<close>: the loop carries the dict \<open>d\<close> built so far.\<close>

definition duplicate_message :: "string \<Rightarrow> string" where
  "duplicate_message k = ''The key '' @ k @
     '' was used multiple times in the same dictionary in the config file. Each key should be unique.''"

fun errorOnDuplicateKeys_loop :: "(string \<times> pyval) list \<Rightarrow> pydict \<Rightarrow> error + pydict" where
  "errorOnDuplicateKeys_loop [] d = Inr d"
| "errorOnDuplicateKeys_loop ((k, v) # orderedPairs) d =
     (if map_of d k \<noteq> None then Inl (ValidationFailedError (duplicate_message k))
      else errorOnDuplicateKeys_loop orderedPairs (AList.update k v d))"

definition errorOnDuplicateKeys :: "(string \<times> pyval) list \<Rightarrow> error + pydict" where
  "errorOnDuplicateKeys orderedPairs = errorOnDuplicateKeys_loop orderedPairs []"

text \<open>
  A JSON document as the decoder of the \<^verbatim>\<open>json\<close> module reads it: an object is the list of
  its pairs in the order of the text, repeated keys included. The decoder works through the
  document depth first and from left to right, and calls \<^verbatim>\<open>object_pairs_hook\<close> on the pairs
  of an object once all its values are decoded; an exception of the hook ends the decoding.
\<close>

datatype json =
    JNull
  | JBool bool
  | JInt int
  | JFloat real
  | JStr string
  | JArray "json list"
  | JObject "(string \<times> json) list"

fun decode :: "json \<Rightarrow> error + pyval"
and decode_array :: "json list \<Rightarrow> error + pyval list"
and decode_pairs :: "(string \<times> json) list \<Rightarrow> error + (string \<times> pyval) list" where
  "decode JNull = Inr PNone"
| "decode (JBool b) = Inr (PBool b)"
| "decode (JInt i) = Inr (PInt i)"
| "decode (JFloat r) = Inr (PFloat r)"
| "decode (JStr s) = Inr (PStr s)"
| "decode (JArray js) = (case decode_array js of Inl e \<Rightarrow> Inl e | Inr vs \<Rightarrow> Inr (PList vs))"
| "decode (JObject ps) =
     (case decode_pairs ps of
        Inl e \<Rightarrow> Inl e
      | Inr orderedPairs \<Rightarrow>
          (case errorOnDuplicateKeys orderedPairs of Inl e \<Rightarrow> Inl e | Inr d \<Rightarrow> Inr (PDict d)))"
| "decode_array [] = Inr []"
| "decode_array (j # js) =
     (case decode j of
        Inl e \<Rightarrow> Inl e
      | Inr v \<Rightarrow> (case decode_array js of Inl e \<Rightarrow> Inl e | Inr vs \<Rightarrow> Inr (v # vs)))"
| "decode_pairs [] = Inr []"
| "decode_pairs ((k, j) # ps) =
     (case decode j of
        Inl e \<Rightarrow> Inl e
      | Inr v \<Rightarrow> (case decode_pairs ps of Inl e \<Rightarrow> Inl e | Inr vs \<Rightarrow> Inr ((k, v) # vs)))"

text \<open>The keys that occur more than once in a list of keys, and the keys that some object
  of a document, at any depth, has more than once.\<close>

definition repeated :: "string list \<Rightarrow> string set" where
  "repeated ks = set (filter (\<lambda>k. 1 < count_list ks k) ks)"

fun duplicated_keys :: "json \<Rightarrow> string set"
and duplicated_keys_array :: "json list \<Rightarrow> string set"
and duplicated_keys_pairs :: "(string \<times> json) list \<Rightarrow> string set" where
  "duplicated_keys JNull = {}"
| "duplicated_keys (JBool b) = {}"
| "duplicated_keys (JInt i) = {}"
| "duplicated_keys (JFloat r) = {}"
| "duplicated_keys (JStr s) = {}"
| "duplicated_keys (JArray js) = duplicated_keys_array js"
| "duplicated_keys (JObject ps) = duplicated_keys_pairs ps \<union> repeated (map fst ps)"
| "duplicated_keys_array [] = {}"
| "duplicated_keys_array (j # js) = duplicated_keys j \<union> duplicated_keys_array js"
| "duplicated_keys_pairs [] = {}"
| "duplicated_keys_pairs ((k, j) # ps) = duplicated_keys j \<union> duplicated_keys_pairs ps"

section \<open>Reading a config file\<close>

text \<open>
  What \<^verbatim>\<open>parseConfigFile\<close> sees of the world: the files by path, and the handles that are
  open. A file holds text that is not JSON, or a JSON document whose top level is an
  object, given by its pairs. \<^verbatim>\<open>open\<close> adds a fresh handle, \<^verbatim>\<open>close\<close> removes it.
\<close>

datatype fileContent = NotJSON | Document "(string \<times> json) list"

record world =
  files :: "string \<Rightarrow> fileContent option"
  openHandles :: "nat set"
  nextHandle :: nat

definition open_file :: "string \<Rightarrow> world \<Rightarrow> (error + (nat \<times> fileContent)) \<times> world" where
  "open_file path w =
     (case files w path of
        None \<Rightarrow> (Inl (FileNotFoundError path), w)
      | Some content \<Rightarrow>
          (Inr (nextHandle w, content),
           w\<lparr>openHandles := insert (nextHandle w) (openHandles w),
             nextHandle := Suc (nextHandle w)\<rparr>))"

definition close_file :: "nat \<Rightarrow> world \<Rightarrow> world" where
  "close_file h w = w\<lparr>openHandles := openHandles w - {h}\<rparr>"

text \<open>\<^verbatim>\<open>json.load(configFile, object_pairs_hook=errorOnDuplicateKeys)\<close>.\<close>

definition json_load :: "fileContent \<Rightarrow> error + pydict" where
  "json_load content =
     (case content of
        NotJSON \<Rightarrow> Inl JSONDecodeError
      | Document ps \<Rightarrow>
          (case decode_pairs ps of
             Inl e \<Rightarrow> Inl e
           | Inr orderedPairs \<Rightarrow> errorOnDuplicateKeys orderedPairs))"

text \<open>\<^verbatim>\<open>parseConfigFile\<close>: the result or the exception, and the world it leaves.\<close>

definition parseConfigFile :: "config \<Rightarrow> string \<Rightarrow> world \<Rightarrow> (error + pyval) \<times> world" where
  "parseConfigFile configSpec configFilePath w =
     (case open_file configFilePath w of
        (Inl e, w1) \<Rightarrow> (Inl e, w1)
      | (Inr (configFile, content), w1) \<Rightarrow>
          (case json_load content of
             Inl e \<Rightarrow> (Inl e, w1)
           | Inr jsonConfig \<Rightarrow> (parseConfig configSpec jsonConfig, close_file configFile w1)))"

text \<open>A string occurs in another one.\<close>

fun starts_with :: "string \<Rightarrow> string \<Rightarrow> bool" where
  "starts_with s [] = True"
| "starts_with [] (c # p) = False"
| "starts_with (a # s) (c # p) = (a = c \<and> starts_with s p)"

fun occurs_in :: "string \<Rightarrow> string \<Rightarrow> bool" where
  "occurs_in p [] = (p = [])"
| "occurs_in p (a # s) = (starts_with (a # s) p \<or> occurs_in p s)"


section \<open>The statistics script\<close>






















section \<open>Auxiliary facts\<close>

lemma MultiType_parse_loop_Some:
  "MultiType_parse_loop ts v = (if \<exists>t \<in> set ts. isinstance v t then Some v else None)"
  by (induction ts) auto

lemma starts_with_append: "starts_with (p @ b) p"
  by (induction p) auto

lemma occurs_in_append: "occurs_in p (a @ p @ b)"
proof (induction a)
  case Nil
  show ?case by (cases "p @ b") (use starts_with_append[of p b] in auto)
next
  case (Cons c a)
  then show ?case by simp
qed

lemma parse_loop_empty: "parse_loop items [] acc = getDefault_loop items acc"
  by (induction items arbitrary: acc) (auto split: sum.splits)

lemma Config_parse_empty: "Config_parse sub [] = Config_getDefault sub"
  by (cases sub) (simp add: parse_loop_empty)

section \<open>Parsing one value\<close>

text \<open>
  C6. \<^verbatim>\<open>MultiTypeConfigItem._parse\<close> returns the raw value unchanged exactly when the value
  is an instance of one of the accepted types; otherwise it raises \<^verbatim>\<open>InvalidTypeError\<close>, and
  the message holds the key, the list of accepted types and the type of the value.
\<close>

theorem MultiType_parse_correct:
  "item_parse_value (MultiTypeConfigItem k ts d) v =
     (if \<exists>t \<in> set ts. isinstance v t then Inr v
      else Inl (InvalidTypeError (''Invalid type for '' @ dq @ k @ dq @ ''. Expected one of '' @ dq
             @ str_type_list ts @ dq @ '', but got '' @ dq @ str_type (type_of v) @ dq @ ''.'')))
   \<and> (item_parse_value (MultiTypeConfigItem k ts d) v = Inr v \<longleftrightarrow> (\<exists>t \<in> set ts. isinstance v t))
   \<and> ((\<forall>t \<in> set ts. \<not> isinstance v t) \<longrightarrow>
        (\<exists>msg. item_parse_value (MultiTypeConfigItem k ts d) v = Inl (InvalidTypeError msg)
           \<and> occurs_in k msg \<and> occurs_in (str_type_list ts) msg
           \<and> occurs_in (str_type (type_of v)) msg))"
proof -
  let ?msg = "''Invalid type for '' @ dq @ k @ dq @ ''. Expected one of '' @ dq
             @ str_type_list ts @ dq @ '', but got '' @ dq @ str_type (type_of v) @ dq @ ''.''"
  have eq: "item_parse_value (MultiTypeConfigItem k ts d) v =
     (if \<exists>t \<in> set ts. isinstance v t then Inr v else Inl (InvalidTypeError ?msg))"
    by (simp add: MultiType_parse_def MultiType_parse_loop_Some InvalidTypeError_init_def)
  have k: "occurs_in k ?msg"
    using occurs_in_append[of k "''Invalid type for '' @ dq"] by simp
  have ts: "occurs_in (str_type_list ts) ?msg"
    using occurs_in_append[of "str_type_list ts"
        "''Invalid type for '' @ dq @ k @ dq @ ''. Expected one of '' @ dq"] by simp
  have ty: "occurs_in (str_type (type_of v)) ?msg"
    using occurs_in_append[of "str_type (type_of v)"
        "''Invalid type for '' @ dq @ k @ dq @ ''. Expected one of '' @ dq
             @ str_type_list ts @ dq @ '', but got '' @ dq"] by simp
  show ?thesis
    using eq k ts ty by auto
qed

theorem MultiType_parse_correct_witness:
  "item_parse_value (MultiTypeConfigItem ''n'' [TInt, TStr] PNoDefault) (PBool True) = Inr (PBool True)
   \<and> (\<exists>t \<in> set [TInt, TStr]. isinstance (PBool True) t)
   \<and> \<not> (\<exists>t \<in> set [TInt, TStr]. isinstance (PFloat 1) t)
   \<and> item_parse_value (MultiTypeConfigItem ''n'' [TInt, TStr] PNoDefault) (PFloat 1) =
       Inl (InvalidTypeError (''Invalid type for '' @ dq @ ''n'' @ dq
         @ ''. Expected one of '' @ dq @ ''[<class '' @ [CHR 0x27] @ ''int'' @ [CHR 0x27] @ ''>, <class ''
         @ [CHR 0x27] @ ''str'' @ [CHR 0x27] @ ''>]'' @ dq @ '', but got ''
         @ dq @ ''<class '' @ [CHR 0x27] @ ''float'' @ [CHR 0x27] @ ''>'' @ dq @ ''.''))"
  using MultiType_parse_correct[of "''n''" "[TInt, TStr]" PNoDefault "PBool True"]
    MultiType_parse_correct[of "''n''" "[TInt, TStr]" PNoDefault "PFloat 1"]
  by (simp add: isinstance_def str_type_list_def str_type_def)

text \<open>
  C7. \<^verbatim>\<open>parseConfig\<close> is \<^verbatim>\<open>validate\<close> after \<^verbatim>\<open>parse\<close>: without a validator \<^verbatim>\<open>validate\<close>
  returns the parsed dict unchanged, with a validator the result is the validator's,
  and an exception of \<^verbatim>\<open>parse\<close> or of the validator is the outcome of \<^verbatim>\<open>parseConfig\<close>.
\<close>

theorem parseConfig_correct:
  "parseConfig spec raw =
     (case Config_parse spec raw of Inl e \<Rightarrow> Inl e | Inr c \<Rightarrow> Config_validate spec c)
   \<and> (validator spec = None \<longrightarrow> (\<forall>c. Config_validate spec c = Inr (PDict c))
        \<and> parseConfig spec raw = (case Config_parse spec raw of Inl e \<Rightarrow> Inl e | Inr c \<Rightarrow> Inr (PDict c)))
   \<and> (\<forall>f c. validator spec = Some f \<longrightarrow> Config_validate spec c = f c)
   \<and> (\<forall>f c. validator spec = Some f \<longrightarrow> Config_parse spec raw = Inr c \<longrightarrow> parseConfig spec raw = f c)
   \<and> (\<forall>e. Config_parse spec raw = Inl e \<longrightarrow> parseConfig spec raw = Inl e)"
  by (auto simp: parseConfig_def Config_validate_def split: sum.splits)

theorem parseConfig_correct_witness:
  "validator (Config [MultiTypeConfigItem ''n'' [TInt] (PInt 1)] None) = None
   \<and> parseConfig (Config [MultiTypeConfigItem ''n'' [TInt] (PInt 1)] None) [(''n'', PInt 5)]
       = Inr (PDict [(''n'', PInt 5)])
   \<and> validator (Config [MultiTypeConfigItem ''n'' [TInt] (PInt 1)]
         (Some (\<lambda>c. Inl (ValidationFailedError ''bad'')))) = Some (\<lambda>c. Inl (ValidationFailedError ''bad''))
   \<and> Config_parse (Config [MultiTypeConfigItem ''n'' [TInt] (PInt 1)]
         (Some (\<lambda>c. Inl (ValidationFailedError ''bad'')))) [(''n'', PInt 5)] = Inr [(''n'', PInt 5)]
   \<and> parseConfig (Config [MultiTypeConfigItem ''n'' [TInt] (PInt 1)]
         (Some (\<lambda>c. Inl (ValidationFailedError ''bad'')))) [(''n'', PInt 5)]
       = Inl (ValidationFailedError ''bad'')
   \<and> (\<exists>e. Config_parse (Config [MultiTypeConfigItem ''n'' [TInt] (PInt 1)] None) [(''n'', PStr ''x'')] = Inl e
          \<and> parseConfig (Config [MultiTypeConfigItem ''n'' [TInt] (PInt 1)] None) [(''n'', PStr ''x'')] = Inl e)"
  using parseConfig_correct[of "Config [MultiTypeConfigItem ''n'' [TInt] (PInt 1)] None" "[(''n'', PInt 5)]"]
    parseConfig_correct[of "Config [MultiTypeConfigItem ''n'' [TInt] (PInt 1)]
         (Some (\<lambda>c. Inl (ValidationFailedError ''bad'')))" "[(''n'', PInt 5)]"]
    parseConfig_correct[of "Config [MultiTypeConfigItem ''n'' [TInt] (PInt 1)] None" "[(''n'', PStr ''x'')]"]
  by (simp add: MultiType_parse_def isinstance_def)

text \<open>
  C2. \<^verbatim>\<open>TypeOrSubconfigConfigItem._parse\<close>: a value of the scalar type is returned
  unchanged; any other value that is a dict is parsed against the nested config; every
  other value raises \<^verbatim>\<open>InvalidTypeError\<close>. With the type \<^verbatim>\<open>str\<close>: \<^verbatim>\<open>"x"\<close> gives \<^verbatim>\<open>"x"\<close>, the
  empty dict gives the defaults of the nested config when they resolve, and \<^verbatim>\<open>42\<close> raises
  \<^verbatim>\<open>InvalidTypeError\<close>.
\<close>

theorem TypeOrSubconfig_parse_correct:
  "(isinstance v t \<longrightarrow> item_parse_value (TypeOrSubconfigConfigItem k t sub d) v = Inr v)
   \<and> (\<forall>m. \<not> isinstance v t \<and> v = PDict m \<longrightarrow>
         item_parse_value (TypeOrSubconfigConfigItem k t sub d) v =
           (case Config_parse sub m of Inl e \<Rightarrow> Inl e | Inr r \<Rightarrow> Inr (PDict r)))
   \<and> (\<not> isinstance v t \<and> type_of v \<noteq> TDict \<longrightarrow>
         item_parse_value (TypeOrSubconfigConfigItem k t sub d) v =
           Inl (InvalidTypeError (''Invalid type for '' @ dq @ k @ dq @ ''. Expected '' @ dq
             @ str_type t @ dq @ '', but got '' @ dq @ str_type (type_of v) @ dq @ ''.'')))
   \<and> item_parse_value (TypeOrSubconfigConfigItem k TStr sub d) (PStr ''x'') = Inr (PStr ''x'')
   \<and> (\<forall>m. Config_getDefault sub = Inr m \<longrightarrow>
         item_parse_value (TypeOrSubconfigConfigItem k TStr sub d) (PDict []) = Inr (PDict m))
   \<and> (\<exists>msg. item_parse_value (TypeOrSubconfigConfigItem k TStr sub d) (PInt 42) =
         Inl (InvalidTypeError msg))"
  by (cases v) (auto simp: isinstance_def InvalidTypeError_init_def Config_parse_empty)

theorem TypeOrSubconfig_parse_correct_witness:
  "isinstance (PInt 3) TInt
   \<and> item_parse_value (TypeOrSubconfigConfigItem ''s'' TInt
         (Config [MultiTypeConfigItem ''n'' [TInt] (PInt 1)] None) PNoDefault) (PInt 3) = Inr (PInt 3)
   \<and> \<not> isinstance (PDict [(''n'', PInt 7), (''z'', PNone)]) TStr
   \<and> item_parse_value (TypeOrSubconfigConfigItem ''s'' TStr
         (Config [MultiTypeConfigItem ''n'' [TInt] (PInt 1)] None) PNoDefault)
         (PDict [(''n'', PInt 7), (''z'', PNone)]) = Inr (PDict [(''n'', PInt 7)])
   \<and> \<not> isinstance (PInt 42) TStr \<and> type_of (PInt 42) \<noteq> TDict
   \<and> item_parse_value (TypeOrSubconfigConfigItem ''s'' TStr
         (Config [MultiTypeConfigItem ''n'' [TInt] (PInt 1)] None) PNoDefault) (PInt 42) =
        Inl (InvalidTypeError (''Invalid type for '' @ dq @ ''s'' @ dq @ ''. Expected '' @ dq
             @ ''<class '' @ [CHR 0x27] @ ''str'' @ [CHR 0x27] @ ''>'' @ dq @ '', but got '' @ dq
             @ ''<class '' @ [CHR 0x27] @ ''int'' @ [CHR 0x27] @ ''>'' @ dq @ ''.''))
   \<and> Config_getDefault (Config [MultiTypeConfigItem ''n'' [TInt] (PInt 1)] None) = Inr [(''n'', PInt 1)]
   \<and> item_parse_value (TypeOrSubconfigConfigItem ''s'' TStr
         (Config [MultiTypeConfigItem ''n'' [TInt] (PInt 1)] None) PNoDefault) (PDict [])
        = Inr (PDict [(''n'', PInt 1)])"
  using TypeOrSubconfig_parse_correct[of "PInt 3" TInt "''s''"
      "Config [MultiTypeConfigItem ''n'' [TInt] (PInt 1)] None" PNoDefault]
    TypeOrSubconfig_parse_correct[of "PDict [(''n'', PInt 7), (''z'', PNone)]" TStr "''s''"
      "Config [MultiTypeConfigItem ''n'' [TInt] (PInt 1)] None" PNoDefault]
    TypeOrSubconfig_parse_correct[of "PInt 42" TStr "''s''"
      "Config [MultiTypeConfigItem ''n'' [TInt] (PInt 1)] None" PNoDefault]
  by (simp add: isinstance_def str_type_def MultiType_parse_def ConfigItem_getDefault_def)

text \<open>
  C10. A declared key that is present with the value \<^verbatim>\<open>None\<close> is type-checked like any
  other value: the result is \<^verbatim>\<open>None\<close> when \<^verbatim>\<open>NoneType\<close> is among the accepted types and
  \<^verbatim>\<open>InvalidTypeError\<close> otherwise, whatever the declared default.
\<close>

theorem None_value_is_type_checked:
  "map_of raw k = Some PNone \<Longrightarrow>
     item_parse (MultiTypeConfigItem k ts d) raw =
       (if TNoneType \<in> set ts then Inr PNone
        else Inl (InvalidTypeError (''Invalid type for '' @ dq @ k @ dq @ ''. Expected one of '' @ dq
               @ str_type_list ts @ dq @ '', but got '' @ dq @ str_type TNoneType @ dq @ ''.'')))
   \<and> item_parse (TypeOrSubconfigConfigItem k t sub d) raw =
       (if t = TNoneType then Inr PNone
        else Inl (InvalidTypeError (''Invalid type for '' @ dq @ k @ dq @ ''. Expected '' @ dq
               @ str_type t @ dq @ '', but got '' @ dq @ str_type TNoneType @ dq @ ''.'')))"
  by (auto simp: MultiType_parse_def MultiType_parse_loop_Some isinstance_def
      InvalidTypeError_init_def)

theorem None_value_is_type_checked_witness:
  "map_of [(''n'', PNone)] ''n'' = Some PNone
   \<and> item_parse (MultiTypeConfigItem ''n'' [TInt, TNoneType] (PInt 1)) [(''n'', PNone)] = Inr PNone
   \<and> (\<exists>msg. item_parse (MultiTypeConfigItem ''n'' [TInt] (PInt 1)) [(''n'', PNone)]
         = Inl (InvalidTypeError msg))
   \<and> item_getDefault (MultiTypeConfigItem ''n'' [TInt] (PInt 1)) = Inr (PInt 1)
   \<and> (\<exists>msg. item_parse (TypeOrSubconfigConfigItem ''n'' TStr (Config [] None) (PInt 1))
         [(''n'', PNone)] = Inl (InvalidTypeError msg))"
  using None_value_is_type_checked[of "[(''n'', PNone)]" "''n''" "[TInt, TNoneType]" "PInt 1" TStr
      "Config [] None"]
    None_value_is_type_checked[of "[(''n'', PNone)]" "''n''" "[TInt]" "PInt 1" TStr
      "Config [] None"]
  by (simp add: ConfigItem_getDefault_def)

section \<open>The loop of \<^verbatim>\<open>Config.parse\<close>\<close>



lemma parse_loop_keys:
  "parse_loop items raw acc = Inr m \<Longrightarrow> fst ` set m = fst ` set acc \<union> key ` set items"
  by (induction items arbitrary: acc) (auto split: sum.splits simp: dom_update)

lemma parse_loop_distinct:
  "parse_loop items raw acc = Inr m \<Longrightarrow> distinct (map fst acc) \<Longrightarrow> distinct (map fst m)"
  by (induction items arbitrary: acc) (auto split: sum.splits simp: distinct_update)

lemma parse_loop_cong:
  "(\<And>it. it \<in> set items \<Longrightarrow> item_parse it raw = item_parse it raw') \<Longrightarrow>
     parse_loop items raw acc = parse_loop items raw' acc"
  by (induction items arbitrary: acc) (auto split: sum.splits simp del: item_parse.simps)




lemma map_of_filter_keys:
  "map_of (filter (\<lambda>p. fst p \<in> S) raw) k = (if k \<in> S then map_of raw k else None)"
  by (induction raw) auto


text \<open>
  C9. The keys of the dict that \<^verbatim>\<open>Config.parse\<close> returns are exactly the keys the items
  declare, each once. Keys of the input that no item declares do not change the outcome,
  result or exception: the input restricted to the declared keys parses the same, and so
  does the input with an undeclared key added.
\<close>

theorem Config_parse_keys:
  "(\<forall>m. Config_parse cfg raw = Inr m \<longrightarrow>
        fst ` set m = key ` set (configItems cfg) \<and> distinct (map fst m))
   \<and> Config_parse cfg (filter (\<lambda>p. fst p \<in> key ` set (configItems cfg)) raw) = Config_parse cfg raw
   \<and> (\<forall>k v. k \<notin> key ` set (configItems cfg) \<longrightarrow>
        Config_parse cfg ((k, v) # raw) = Config_parse cfg raw)"
proof (cases cfg)
  case (Config items vd)
  have keys: "fst ` set m = key ` set items \<and> distinct (map fst m)"
    if "parse_loop items raw [] = Inr m" for m
    using parse_loop_keys[OF that] parse_loop_distinct[OF that] by simp
  have filt: "parse_loop items (filter (\<lambda>p. fst p \<in> key ` set items) raw) [] = parse_loop items raw []"
    by (rule parse_loop_cong) (simp add: map_of_filter_keys)
  have extra: "parse_loop items ((k, v) # raw) [] = parse_loop items raw []"
    if "k \<notin> key ` set items" for k v
    by (rule parse_loop_cong) (use that in auto)
  show ?thesis
    using Config keys filt extra by simp
qed

theorem Config_parse_keys_witness:
  "Config_parse (Config [MultiTypeConfigItem ''n'' [TInt] (PInt 1), MultiTypeConfigItem ''s'' [TStr] (PStr ''d'')] None)
       [(''n'', PInt 5), (''zz'', PBool True)] = Inr [(''n'', PInt 5), (''s'', PStr ''d'')]
   \<and> fst ` set [(''n'', PInt 5), (''s'', PStr ''d'')] = {''n'', ''s''}
   \<and> ''zz'' \<notin> key ` set (configItems (Config [MultiTypeConfigItem ''n'' [TInt] (PInt 1),
         MultiTypeConfigItem ''s'' [TStr] (PStr ''d'')] None))
   \<and> Config_parse (Config [MultiTypeConfigItem ''n'' [TInt] (PInt 1), MultiTypeConfigItem ''s'' [TStr] (PStr ''d'')] None)
       ((''zz'', PBool True) # [(''n'', PInt 5)]) =
      Config_parse (Config [MultiTypeConfigItem ''n'' [TInt] (PInt 1), MultiTypeConfigItem ''s'' [TStr] (PStr ''d'')] None)
       [(''n'', PInt 5)]"
  using Config_parse_keys[of "Config [MultiTypeConfigItem ''n'' [TInt] (PInt 1),
         MultiTypeConfigItem ''s'' [TStr] (PStr ''d'')] None" "[(''n'', PInt 5), (''zz'', PBool True)]"]
    Config_parse_keys[of "Config [MultiTypeConfigItem ''n'' [TInt] (PInt 1),
         MultiTypeConfigItem ''s'' [TStr] (PStr ''d'')] None" "[(''n'', PInt 5)]"]
  by (simp add: MultiType_parse_def isinstance_def ConfigItem_getDefault_def)










section \<open>Decoding and the file\<close>

lemma update_fresh: "map_of d k = None \<Longrightarrow> AList.update k v d = d @ [(k, v)]"
  by (induction d) (auto split: if_splits)

lemma count_list_pos: "x \<in> set xs \<Longrightarrow> 0 < count_list xs x"
  using count_list_0_iff[of xs x] by simp

lemma repeated_iff: "k \<in> repeated ks \<longleftrightarrow> 1 < count_list ks k"
proof
  assume "k \<in> repeated ks"
  then show "1 < count_list ks k" by (simp add: repeated_def)
next
  assume c: "1 < count_list ks k"
  then have "k \<in> set ks" using count_list_0_iff[of ks k] by auto
  with c show "k \<in> repeated ks" by (simp add: repeated_def)
qed

lemma distinct_count_le: "distinct ks \<Longrightarrow> count_list ks k \<le> 1"
  by (induction ks) auto

lemma count_le_distinct: "(\<And>k. count_list ks k \<le> 1) \<Longrightarrow> distinct ks"
proof (induction ks)
  case Nil
  then show ?case by simp
next
  case (Cons a ks)
  from Cons.prems[of a] have "count_list ks a = 0" by simp
  then have notin: "a \<notin> set ks" by (simp add: count_list_0_iff)
  have "count_list ks k \<le> 1" for k
    using Cons.prems[of k] by (simp split: if_splits)
  with Cons.IH notin show ?case by simp
qed

lemma repeated_empty_iff: "repeated ks = {} \<longleftrightarrow> distinct ks"
proof
  assume e: "repeated ks = {}"
  have "count_list ks k \<le> 1" for k
    using e repeated_iff[of k ks] by (auto simp: not_less)
  then show "distinct ks" by (rule count_le_distinct)
next
  assume d: "distinct ks"
  show "repeated ks = {}"
  proof (rule ccontr)
    assume "repeated ks \<noteq> {}"
    then obtain k where "k \<in> repeated ks" by blast
    then have "1 < count_list ks k" by (simp add: repeated_iff)
    with distinct_count_le[OF d, of k] show False by simp
  qed
qed

lemma errorOnDuplicateKeys_loop_Inl:
  "errorOnDuplicateKeys_loop qs d = Inl e \<Longrightarrow>
     \<exists>k. e = ValidationFailedError (duplicate_message k) \<and> 1 < count_list (map fst d @ map fst qs) k"
proof (induction qs arbitrary: d)
  case Nil
  then show ?case by simp
next
  case (Cons q qs)
  obtain k v where q: "q = (k, v)" by (cases q)
  show ?case
  proof (cases "map_of d k")
    case None
    with Cons.prems q have "errorOnDuplicateKeys_loop qs (d @ [(k, v)]) = Inl e"
      by (simp add: update_fresh)
    from Cons.IH[OF this] q show ?thesis by simp
  next
    case (Some x)
    then have "k \<in> set (map fst d)" by (auto dest: map_of_SomeD intro: rev_image_eqI)
    then have "0 < count_list (map fst d) k" by (rule count_list_pos)
    with Cons.prems q Some show ?thesis by auto
  qed
qed

lemma errorOnDuplicateKeys_loop_Inr:
  "errorOnDuplicateKeys_loop qs d = Inr r \<Longrightarrow> distinct (map fst d) \<Longrightarrow>
     r = d @ qs \<and> distinct (map fst r)"
proof (induction qs arbitrary: d)
  case Nil
  then show ?case by simp
next
  case (Cons q qs)
  obtain k v where q: "q = (k, v)" by (cases q)
  from Cons.prems q have none: "map_of d k = None"
    by (cases "map_of d k") (auto split: if_splits)
  with Cons.prems q have "errorOnDuplicateKeys_loop qs (d @ [(k, v)]) = Inr r"
    by (simp add: update_fresh)
  moreover from none Cons.prems(2) have "distinct (map fst (d @ [(k, v)]))"
    by (auto simp: map_of_eq_None_iff)
  ultimately show ?case using Cons.IH q by fastforce
qed

lemma errorOnDuplicateKeys_cases:
  "(repeated (map fst qs) = {} \<and> errorOnDuplicateKeys qs = Inr qs)
   \<or> (\<exists>k \<in> repeated (map fst qs). errorOnDuplicateKeys qs = Inl (ValidationFailedError (duplicate_message k)))"
proof (cases "errorOnDuplicateKeys qs")
  case (Inl e)
  from errorOnDuplicateKeys_loop_Inl[of qs "[]" e] Inl show ?thesis
    by (auto simp: errorOnDuplicateKeys_def repeated_iff)
next
  case (Inr r)
  from errorOnDuplicateKeys_loop_Inr[of qs "[]" r] Inr show ?thesis
    by (auto simp: errorOnDuplicateKeys_def repeated_empty_iff)
qed


lemma decode_cases:
  shows "(duplicated_keys j = {} \<and> (\<exists>v. decode j = Inr v))
      \<or> (\<exists>k \<in> duplicated_keys j. decode j = Inl (ValidationFailedError (duplicate_message k)))"
    and "(duplicated_keys_array js = {} \<and> (\<exists>vs. decode_array js = Inr vs))
      \<or> (\<exists>k \<in> duplicated_keys_array js.
            decode_array js = Inl (ValidationFailedError (duplicate_message k)))"
    and "(duplicated_keys_pairs ps = {} \<and> (\<exists>qs. decode_pairs ps = Inr qs \<and> map fst qs = map fst ps))
      \<or> (\<exists>k \<in> duplicated_keys_pairs ps.
            decode_pairs ps = Inl (ValidationFailedError (duplicate_message k)))"
proof (induction j and js and ps rule: decode_decode_array_decode_pairs.induct)
  case (6 js)
  then show ?case by auto
next
  case (7 ps)
  from 7 consider
      (ok) qs where "duplicated_keys_pairs ps = {}" "decode_pairs ps = Inr qs" "map fst qs = map fst ps"
    | (bad) k where "k \<in> duplicated_keys_pairs ps"
        "decode_pairs ps = Inl (ValidationFailedError (duplicate_message k))"
    by blast
  then show ?case
  proof cases
    case ok
    with errorOnDuplicateKeys_cases[of qs] show ?thesis by auto
  next
    case bad
    then show ?thesis by auto
  qed
next
  case (9 j js)
  from 9(1) consider
      (ok) v where "duplicated_keys j = {}" "decode j = Inr v"
    | (bad) k where "k \<in> duplicated_keys j" "decode j = Inl (ValidationFailedError (duplicate_message k))"
    by blast
  then show ?case
  proof cases
    case ok
    with 9(2)[OF ok(2)] show ?thesis by auto
  next
    case bad
    then show ?thesis by auto
  qed
next
  case (11 k j ps)
  from 11(1) consider
      (ok) v where "duplicated_keys j = {}" "decode j = Inr v"
    | (bad) k' where "k' \<in> duplicated_keys j" "decode j = Inl (ValidationFailedError (duplicate_message k'))"
    by blast
  then show ?case
  proof cases
    case ok
    with 11(2)[OF ok(2)] show ?thesis by auto
  next
    case bad
    then show ?thesis by auto
  qed
qed simp_all

lemma json_load_duplicate:
  assumes "duplicated_keys (JObject ps) \<noteq> {}"
  shows "\<exists>k \<in> duplicated_keys (JObject ps).
           json_load (Document ps) = Inl (ValidationFailedError (duplicate_message k))"
proof -
  from decode_cases(3)[of ps] consider
      (ok) qs where "duplicated_keys_pairs ps = {}" "decode_pairs ps = Inr qs" "map fst qs = map fst ps"
    | (bad) k where "k \<in> duplicated_keys_pairs ps"
        "decode_pairs ps = Inl (ValidationFailedError (duplicate_message k))"
    by blast
  then show ?thesis
  proof cases
    case ok
    with errorOnDuplicateKeys_cases[of qs] assms show ?thesis
      by (auto simp: json_load_def)
  next
    case bad
    then show ?thesis by (auto simp: json_load_def)
  qed
qed

lemma occurs_in_duplicate_message: "occurs_in k (duplicate_message k)"
  unfolding duplicate_message_def by (rule occurs_in_append)

lemma parseConfigFile_outcome:
  "files w path = Some content \<Longrightarrow>
     fst (parseConfigFile spec path w) =
       (case json_load content of Inl e \<Rightarrow> Inl e | Inr j \<Rightarrow> parseConfig spec j)"
  by (simp add: parseConfigFile_def open_file_def split: sum.splits)

lemma parseConfigFile_handles:
  "files w path = Some content \<Longrightarrow>
     openHandles (snd (parseConfigFile spec path w)) =
       (case json_load content of
          Inl e \<Rightarrow> insert (nextHandle w) (openHandles w)
        | Inr j \<Rightarrow> openHandles w - {nextHandle w})"
  by (simp add: parseConfigFile_def open_file_def close_file_def split: sum.splits)

text \<open>
  C3, as amended. When some object of the file's document, at any depth, has a key more
  than once, \<^verbatim>\<open>parseConfigFile\<close> raises \<^verbatim>\<open>ValidationFailedError\<close>, and the message names a key
  that is repeated in one object. The message is made from that key alone: it is the
  same for every path that holds the document and for every config.
\<close>

theorem duplicate_keys_rejected:
  assumes "files w path = Some (Document ps)" and "duplicated_keys (JObject ps) \<noteq> {}"
  shows "\<exists>k \<in> duplicated_keys (JObject ps).
           fst (parseConfigFile spec path w) = Inl (ValidationFailedError (duplicate_message k))
           \<and> occurs_in k (duplicate_message k)
           \<and> (\<forall>spec' path' w'. files w' path' = Some (Document ps) \<longrightarrow>
                 fst (parseConfigFile spec' path' w') = Inl (ValidationFailedError (duplicate_message k)))"
proof -
  from json_load_duplicate[OF assms(2)] obtain k where k: "k \<in> duplicated_keys (JObject ps)"
    and l: "json_load (Document ps) = Inl (ValidationFailedError (duplicate_message k))" by blast
  have "fst (parseConfigFile spec' path' w') = Inl (ValidationFailedError (duplicate_message k))"
    if "files w' path' = Some (Document ps)" for spec' path' w'
    using parseConfigFile_outcome[OF that, of spec'] l by simp
  with k assms(1) occurs_in_duplicate_message[of k] show ?thesis by blast
qed

theorem duplicate_keys_rejected_witness:
  "files \<lparr>files = [''settings.json'' \<mapsto> Document [(''b'', JObject [(''a'', JInt 1), (''a'', JInt 2)])]],
           openHandles = {}, nextHandle = 0\<rparr> ''settings.json''
     = Some (Document [(''b'', JObject [(''a'', JInt 1), (''a'', JInt 2)])])
   \<and> duplicated_keys (JObject [(''b'', JObject [(''a'', JInt 1), (''a'', JInt 2)])]) = {''a''}
   \<and> fst (parseConfigFile (Config [] None) ''settings.json''
        \<lparr>files = [''settings.json'' \<mapsto> Document [(''b'', JObject [(''a'', JInt 1), (''a'', JInt 2)])]],
           openHandles = {}, nextHandle = 0\<rparr>)
      = Inl (ValidationFailedError (duplicate_message ''a''))"
proof -
  let ?w = "\<lparr>files = [''settings.json'' \<mapsto> Document [(''b'', JObject [(''a'', JInt 1), (''a'', JInt 2)])]],
           openHandles = {}, nextHandle = 0\<rparr>"
  have f: "files ?w ''settings.json'' = Some (Document [(''b'', JObject [(''a'', JInt 1), (''a'', JInt 2)])])"
    by simp
  have d: "duplicated_keys (JObject [(''b'', JObject [(''a'', JInt 1), (''a'', JInt 2)])]) = {''a''}"
    by (simp add: repeated_def)
  then have ne: "duplicated_keys (JObject [(''b'', JObject [(''a'', JInt 1), (''a'', JInt 2)])]) \<noteq> {}"
    by simp
  from duplicate_keys_rejected[OF f ne, of "Config [] None"] f d show ?thesis
    by simp
qed

text \<open>
  C3 as stated fails: the message of the exception does not name the file that is parsed.
\<close>

theorem duplicate_message_counterexample:
  "fst (parseConfigFile (Config [] None) ''settings.json''
        \<lparr>files = [''settings.json'' \<mapsto> Document [(''a'', JInt 1), (''a'', JInt 2)]],
           openHandles = {}, nextHandle = 0\<rparr>)
      = Inl (ValidationFailedError
          ''The key a was used multiple times in the same dictionary in the config file. Each key should be unique.'')
   \<and> \<not> occurs_in ''settings.json''
          ''The key a was used multiple times in the same dictionary in the config file. Each key should be unique.''"
  by (simp add: parseConfigFile_def open_file_def json_load_def errorOnDuplicateKeys_def
      duplicate_message_def)

text \<open>
  C4 does not hold of the code. \<^verbatim>\<open>close\<close> is called after \<^verbatim>\<open>json.load\<close> returns and before
  \<^verbatim>\<open>parseConfig\<close>, so the handle is closed when the config fails to parse or validate
  (\<open>parseConfigFile_handles\<close>); but an exception of \<^verbatim>\<open>json.load\<close> skips the call. On a file
  whose object repeats a key, \<^verbatim>\<open>parseConfigFile\<close> raises and the handle it opened is still
  open.
\<close>

theorem parseConfigFile_leaves_file_open:
  "parseConfigFile (Config [] None) ''settings.json''
        \<lparr>files = [''settings.json'' \<mapsto> Document [(''a'', JInt 1), (''a'', JInt 2)]],
           openHandles = {}, nextHandle = 0\<rparr>
     = (Inl (ValidationFailedError (duplicate_message ''a'')),
        \<lparr>files = [''settings.json'' \<mapsto> Document [(''a'', JInt 1), (''a'', JInt 2)]],
           openHandles = {0}, nextHandle = 1\<rparr>)"
  by (simp add: parseConfigFile_def open_file_def json_load_def errorOnDuplicateKeys_def)

section \<open>The two sorts of the statistics script\<close>






























end
